theory Spec2Isabelle
  imports Main
begin

section \<open>Node.js runtime version selection (now-build-utils, fs/node-version.ts)\<close>

text \<open>
  The module keeps a fixed list of Node.js runtimes, newest first, and
  \<open>getSupportedNodeVersion\<close> picks one of them for an optional \<open>engines\<close> range.
  What the module takes from outside is a parameter of the model:
  \<^item> \<open>intersects\<close> and \<open>validRange\<close> of the semver package: \<open>intersects\<close> parses its
    two strings as ranges and throws a \<open>TypeError\<close> when one of them is not a range, and
    \<open>validRange\<close> is the package's own test of whether a string is one;
  \<^item> \<open>boxen\<close>, which frames a text for the terminal;
  \<^item> \<open>Date.prototype.toISOString\<close>, from a time stamp to its ISO text;
  \<^item> \<open>Date.now()\<close>: \<open>loadTime\<close> is its value while the module is loaded and the constant
    \<open>supportedOptions\<close> is computed (only the one option with a date depends on it), and
    \<open>today\<close> its value in the call, which reads it once.
  Dates are milliseconds since the epoch, as \<open>Date.getTime()\<close> gives them. The function is
  \<open>async\<close> with a synchronous body: a rejected promise is the \<open>Inl\<close> of the result
  (with what was thrown, an error of the module's own or the library's \<open>TypeError\<close>), a
  fulfilled one the \<open>Inr\<close>. The arguments of its calls of \<open>debug\<close> and \<open>console.warn\<close>
  are returned beside the result, in order.
\<close>

subsection \<open>Data\<close>

record NodeVersion =
  major :: nat
  range_nv :: string
  runtime :: string
  discontinueDate :: "int option"

record NowBuildError =
  code :: string
  message :: string

text \<open>What a call can throw: the module's own error, or the \<open>TypeError\<close> of semver.\<close>

datatype rejection = BuildError NowBuildError | TypeError

datatype emitted = Debug string | Warn string

record externals =
  validRange :: "string \<Rightarrow> bool"
  intersects :: "string \<Rightarrow> string \<Rightarrow> bool"
  boxen :: "string \<Rightarrow> string"
  toISOString :: "int \<Rightarrow> string"

text \<open>\<open>new Date('2020-01-06')\<close> is midnight UTC of that day: 1578268800000 ms.\<close>

definition allOptions :: "NodeVersion list" where
  "allOptions =
    [\<lparr>major = 12, range_nv = ''12.x'', runtime = ''nodejs12.x'', discontinueDate = None\<rparr>,
     \<lparr>major = 10, range_nv = ''10.x'', runtime = ''nodejs10.x'', discontinueDate = None\<rparr>,
     \<lparr>major = 8, range_nv = ''8.10.x'', runtime = ''nodejs8.10'',
      discontinueDate = Some 1578268800000\<rparr>]"

subsection \<open>JavaScript helpers\<close>

text \<open>
  \<open>if (engineRange)\<close> on an optional string: \<open>undefined\<close> and the empty string are falsy.
  \<open>isAuto\<close> is an optional boolean: \<open>undefined\<close> and \<open>false\<close> are falsy.
\<close>

definition truthy :: "string option \<Rightarrow> bool" where
  "truthy s = (case s of None \<Rightarrow> False | Some r \<Rightarrow> r \<noteq> [])"

definition truthy_bool :: "bool option \<Rightarrow> bool" where
  "truthy_bool b = (case b of None \<Rightarrow> False | Some v \<Rightarrow> v)"

text \<open>An optional string inside a string concatenation.\<close>

definition str :: "string option \<Rightarrow> string" where
  "str s = (case s of None \<Rightarrow> ''undefined'' | Some r \<Rightarrow> r)"

text \<open>
  \<open>Array.prototype.some\<close> with a callback that also writes a variable of the enclosing
  function and may throw: the callback takes the element and the variable's value and
  returns what it throws, or its verdict with the new value. The walk stops at the first
  element the callback accepts, and an exception of the callback ends it.
\<close>

fun some_st :: "('a \<Rightarrow> 's \<Rightarrow> 'e + bool \<times> 's) \<Rightarrow> 'a list \<Rightarrow> 's \<Rightarrow> 'e + bool \<times> 's" where
  "some_st f [] s = Inr (False, s)"
| "some_st f (x # xs) s =
     (case f x s of
        Inl e \<Rightarrow> Inl e
      | Inr (b, s') \<Rightarrow> if b then Inr (True, s') else some_st f xs s')"

text \<open>
  \<open>JSON.stringify\<close> on an array of strings: the quoted elements, separated by commas, in
  brackets. Of the escapes only the quote and the backslash are written out.
\<close>

fun join :: "string \<Rightarrow> string list \<Rightarrow> string" where
  "join sep [] = []"
| "join sep [x] = x"
| "join sep (x # y # ys) = x @ sep @ join sep (y # ys)"

definition quote :: "string \<Rightarrow> string" where
  "quote s =
     [CHR 0x22] @ concat (map (\<lambda>c. if c = CHR 0x22 \<or> c = CHR 0x5C then [CHR 0x5C, c] else [c]) s)
       @ [CHR 0x22]"

definition JSON_stringify :: "string list \<Rightarrow> string" where
  "JSON_stringify xs = ''['' @ join '','' (map quote xs) @ '']''"

text \<open>\<open>s.split('T')[0]\<close>: the text before the first \<open>T\<close>.\<close>

definition split_T_0 :: "string \<Rightarrow> string" where
  "split_T_0 s = takeWhile (\<lambda>c. c \<noteq> CHR ''T'') s"

subsection \<open>The module\<close>

definition isDiscontinued :: "int \<Rightarrow> NodeVersion \<Rightarrow> bool" where
  "isDiscontinued today nv =
     (case discontinueDate nv of None \<Rightarrow> False | Some d \<Rightarrow> d \<le> today)"

definition getOldestNodeVersion :: NodeVersion where
  "getOldestNodeVersion = allOptions ! (length allOptions - 1)"

definition getLatestNodeVersion :: NodeVersion where
  "getLatestNodeVersion = allOptions ! 0"

definition supportedOptions :: "int \<Rightarrow> NodeVersion list" where
  "supportedOptions loadTime = filter (\<lambda>opt. \<not> isDiscontinued loadTime opt) allOptions"

definition pleaseUse :: "int \<Rightarrow> string" where
  \<open>pleaseUse loadTime =
     ''Please use one of the following `engines` in your `package.json`: '' @
     JSON_stringify (map range_nv (supportedOptions loadTime))\<close>

definition pleaseAdd :: string where
  \<open>pleaseAdd =
     ''Please add "engines": { "node": "'' @ range_nv getLatestNodeVersion @
     ''" } to your `package.json` file.''\<close>

definition upstreamProvider :: string where
  "upstreamProvider =
     ''This change is the result of a decision made by an upstream infrastructure provider (AWS).'' @
     ''\<newline>Read more: https://docs.aws.amazon.com/lambda/latest/dg/runtime-support-policy.html''"

text \<open>The test \<open>isAuto || !engineRange\<close>, which chooses the wording at four places.\<close>

definition isAuto_or_no_engineRange :: "bool option \<Rightarrow> string option \<Rightarrow> bool" where
  "isAuto_or_no_engineRange isAuto engineRange = (truthy_bool isAuto \<or> \<not> truthy engineRange)"

definition invalid_message :: "int \<Rightarrow> string option \<Rightarrow> bool option \<Rightarrow> string" where
  "invalid_message loadTime engineRange isAuto =
     (if isAuto_or_no_engineRange isAuto engineRange
      then ''This project is using an invalid version of Node.js and must be changed.''
      else ''Found `engines` in `package.json` with an invalid Node.js version range: '' @
           str engineRange)
     @ ''\<newline>'' @ pleaseUse loadTime"

definition discontinued_message :: "int \<Rightarrow> string option \<Rightarrow> bool option \<Rightarrow> string" where
  "discontinued_message loadTime engineRange isAuto =
     (if isAuto_or_no_engineRange isAuto engineRange
      then ''This project is using a discontinued version of Node.js and must be upgraded.'' @
           ''\<newline>'' @ pleaseAdd
      else ''Found `engines` in `package.json` with a discontinued Node.js version range: '' @
           str engineRange @ ''\<newline>'' @ pleaseUse loadTime)
     @ ''\<newline>'' @ upstreamProvider"

definition debug_message :: "NodeVersion \<Rightarrow> string option \<Rightarrow> bool option \<Rightarrow> string" where
  "debug_message selection engineRange isAuto =
     (if isAuto_or_no_engineRange isAuto engineRange
      then ''Using default Node.js range: '' @ range_nv selection
      else (if truthy engineRange then ''Found'' else ''Missing'') @
           '' `engines` in `package.json`, selecting range: '' @ range_nv selection)"

definition notice :: "int \<Rightarrow> NodeVersion \<Rightarrow> string \<Rightarrow> string option \<Rightarrow> bool option \<Rightarrow> string" where
  "notice loadTime selection d engineRange isAuto =
     ''NOTICE'' @ ''\<newline>'' @
     ''\<newline>Node.js version '' @ range_nv selection @ '' has reached end-of-life.'' @
     ''\<newline>As a result, deployments created on or after '' @ d @ '' will fail to build.'' @
     ''\<newline>'' @
     (if isAuto_or_no_engineRange isAuto engineRange then pleaseAdd else pleaseUse loadTime) @
     ''\<newline>'' @ upstreamProvider"

text \<open>
  The library call of the scan, \<open>intersects(o.range, engineRange)\<close>. Its first string is
  always the range of a known option, one of the three literals of \<open>allOptions\<close>, each of
  which is a range; so the call throws exactly when the requested string is not a range,
  and answers otherwise.
\<close>

definition semver_intersects :: "externals \<Rightarrow> string \<Rightarrow> string \<Rightarrow> rejection + bool" where
  "semver_intersects X known requested =
     (if validRange X requested then Inr (intersects X known requested) else Inl TypeError)"

text \<open>
  The callback of the scan: it stores the option in \<open>selection\<close> first and then answers
  whether the option's range meets the requested one, unless the library throws.
\<close>

definition scan_callback ::
  "externals \<Rightarrow> string \<Rightarrow> NodeVersion \<Rightarrow> NodeVersion \<Rightarrow> rejection + bool \<times> NodeVersion" where
  "scan_callback X engineRange opt selection =
     (case semver_intersects X (range_nv opt) engineRange of
        Inl e \<Rightarrow> Inl e
      | Inr b \<Rightarrow> Inr (b, opt))"

text \<open>
  The end of the function, after both checks: the debug line, the notice when the selection
  carries a discontinuation date, and the selection as the result.
\<close>

definition report_and_return ::
  "externals \<Rightarrow> int \<Rightarrow> NodeVersion \<Rightarrow> string option \<Rightarrow> bool option
     \<Rightarrow> emitted list \<times> (rejection + NodeVersion)" where
  "report_and_return X loadTime selection engineRange isAuto =
     (Debug (debug_message selection engineRange isAuto) #
      (case discontinueDate selection of
         None \<Rightarrow> []
       | Some dd \<Rightarrow>
           [Warn (boxen X (notice loadTime selection (split_T_0 (toISOString X dd))
                             engineRange isAuto))]),
      Inr selection)"

text \<open>The function from its second check on: a discontinued selection is refused.\<close>

definition check_discontinued ::
  "externals \<Rightarrow> int \<Rightarrow> int \<Rightarrow> NodeVersion \<Rightarrow> string option \<Rightarrow> bool option
     \<Rightarrow> emitted list \<times> (rejection + NodeVersion)" where
  "check_discontinued X loadTime today selection engineRange isAuto =
     (if isDiscontinued today selection then
        ([], Inl (BuildError \<lparr>code = ''NOW_BUILD_UTILS_NODE_VERSION_DISCONTINUED'',
                              message = discontinued_message loadTime engineRange isAuto\<rparr>))
      else report_and_return X loadTime selection engineRange isAuto)"

text \<open>
  The scan has no handler around the library call: what the library throws leaves the
  function as it is, before anything is written.
\<close>

definition getSupportedNodeVersion ::
  "externals \<Rightarrow> int \<Rightarrow> int \<Rightarrow> string option \<Rightarrow> bool option
     \<Rightarrow> emitted list \<times> (rejection + NodeVersion)" where
  "getSupportedNodeVersion X loadTime today engineRange isAuto =
     (if truthy engineRange then
        (case some_st (scan_callback X (str engineRange)) allOptions getOldestNodeVersion of
           Inl e \<Rightarrow> ([], Inl e)
         | Inr (found, selection) \<Rightarrow>
             if \<not> found then
               ([], Inl (BuildError \<lparr>code = ''NOW_BUILD_UTILS_NODE_VERSION_INVALID'',
                                     message = invalid_message loadTime engineRange isAuto\<rparr>))
             else check_discontinued X loadTime today selection engineRange isAuto)
      else check_discontinued X loadTime today getOldestNodeVersion engineRange isAuto)"

subsection \<open>Reading a result\<close>

text \<open>
  The machine-readable kind of what was thrown: the code of the module's own error; the
  library's \<open>TypeError\<close> has none.
\<close>

fun rejection_code :: "rejection \<Rightarrow> string option" where
  "rejection_code (BuildError e) = Some (code e)"
| "rejection_code TypeError = None"

definition error_code :: "rejection + NodeVersion \<Rightarrow> string option" where
  "error_code res = (case res of Inl e \<Rightarrow> rejection_code e | Inr _ \<Rightarrow> None)"

text \<open>The texts handed to \<open>console.warn\<close>, in order.\<close>

fun warnings :: "emitted list \<Rightarrow> string list" where
  "warnings [] = []"
| "warnings (Debug _ # es) = warnings es"
| "warnings (Warn s # es) = s # warnings es"

text \<open>
  The selection in the specification's words (steps 1 to 3 of its algorithm): the oldest
  option when no range is requested, else the first option of the list whose range
  intersects the requested one, if there is one.
\<close>

definition spec_selection :: "externals \<Rightarrow> string option \<Rightarrow> NodeVersion option" where
  "spec_selection X engineRange =
     (if truthy engineRange
      then find (\<lambda>opt. semver_intersects X (range_nv opt) (str engineRange) = Inr True) allOptions
      else Some (last allOptions))"

subsection \<open>Stand-ins for the externals, for evaluating the model\<close>

text \<open>
  A table of ranges and of their intersections, as semver decides the strings used below:
  \<open>12.x\<close>, \<open>10.x\<close>, \<open>8.10.x\<close>, \<open>6.x\<close> and \<open>>=10\<close> are ranges and \<open>foo\<close> is not;
  each of the three known ranges meets itself and no other, \<open>>=10\<close> meets \<open>12.x\<close> and
  \<open>10.x\<close>, \<open>6.x\<close> meets none. The frame is left out and every date prints as
  2020-01-06.
\<close>

definition stub_validRange :: "string \<Rightarrow> bool" where
  "stub_validRange r = (r \<in> set [''12.x'', ''10.x'', ''8.10.x'', ''6.x'', ''>=10''])"

definition stub_intersects :: "string \<Rightarrow> string \<Rightarrow> bool" where
  "stub_intersects a b = (a = b \<or> (b = ''>=10'' \<and> (a = ''12.x'' \<or> a = ''10.x'')))"

definition stub :: externals where
  "stub = \<lparr>validRange = stub_validRange, intersects = stub_intersects, boxen = (\<lambda>s. s),
           toISOString = (\<lambda>t. ''2020-01-06T00:00:00.000Z'')\<rparr>"

section \<open>Properties\<close>

subsection \<open>The scan and the four ways through the function\<close>

lemma getOldest_last: "getOldestNodeVersion = last allOptions"
  by (simp add: getOldestNodeVersion_def allOptions_def)

lemma getOldest_in: "getOldestNodeVersion \<in> set allOptions"
  by (simp add: getOldestNodeVersion_def allOptions_def)

lemma allOptions_Cons: "\<exists>x xs. allOptions = x # xs"
  by (simp add: allOptions_def)

text \<open>
  On a string that is a range the scan stops at the first option whose range intersects
  it, with that option in \<open>selection\<close>, and reports failure when there is none. On a
  string that is not a range the first library call throws.
\<close>

lemma scan_found_valid:
  "validRange X r \<Longrightarrow>
   find (\<lambda>opt. semver_intersects X (range_nv opt) r = Inr True) os = Some sel \<Longrightarrow>
   some_st (scan_callback X r) os s = Inr (True, sel)"
  by (induction os arbitrary: s)
     (auto simp: scan_callback_def semver_intersects_def split: if_splits)

lemma match_is_valid:
  "find (\<lambda>opt. semver_intersects X (range_nv opt) r = Inr True) os = Some sel \<Longrightarrow> validRange X r"
  by (auto simp: find_Some_iff semver_intersects_def split: if_splits)

lemma scan_found:
  "find (\<lambda>opt. semver_intersects X (range_nv opt) r = Inr True) os = Some sel \<Longrightarrow>
   some_st (scan_callback X r) os s = Inr (True, sel)"
  using scan_found_valid match_is_valid by blast

lemma scan_not_found:
  "validRange X r \<Longrightarrow>
   find (\<lambda>opt. semver_intersects X (range_nv opt) r = Inr True) os = None \<Longrightarrow>
   \<exists>s'. some_st (scan_callback X r) os s = Inr (False, s')"
  by (induction os arbitrary: s)
     (auto simp: scan_callback_def semver_intersects_def split: if_splits)

lemma scan_raises:
  "\<not> validRange X r \<Longrightarrow> some_st (scan_callback X r) (x # xs) s = Inl TypeError"
  by (simp add: scan_callback_def semver_intersects_def)

lemma gsnv_absent:
  assumes "\<not> truthy r"
  shows "getSupportedNodeVersion X L T r a =
    (if isDiscontinued T getOldestNodeVersion
     then ([], Inl (BuildError \<lparr>code = ''NOW_BUILD_UTILS_NODE_VERSION_DISCONTINUED'',
                                message = discontinued_message L r a\<rparr>))
     else report_and_return X L getOldestNodeVersion r a)"
  using assms by (simp add: getSupportedNodeVersion_def check_discontinued_def)

lemma gsnv_raises:
  assumes "truthy r" "\<not> validRange X (str r)"
  shows "getSupportedNodeVersion X L T r a = ([], Inl TypeError)"
proof -
  from allOptions_Cons obtain x xs where "allOptions = x # xs" by blast
  with scan_raises[OF assms(2), of x xs getOldestNodeVersion] assms(1)
  show ?thesis by (simp add: getSupportedNodeVersion_def)
qed

lemma gsnv_no_match:
  assumes "truthy r" "validRange X (str r)"
    and "find (\<lambda>opt. semver_intersects X (range_nv opt) (str r) = Inr True) allOptions = None"
  shows "getSupportedNodeVersion X L T r a =
     ([], Inl (BuildError \<lparr>code = ''NOW_BUILD_UTILS_NODE_VERSION_INVALID'',
                           message = invalid_message L r a\<rparr>))"
proof -
  from scan_not_found[OF assms(2,3), of getOldestNodeVersion] obtain s where
    "some_st (scan_callback X (str r)) allOptions getOldestNodeVersion = Inr (False, s)"
    by blast
  with assms(1) show ?thesis by (simp add: getSupportedNodeVersion_def)
qed

lemma gsnv_match:
  assumes "truthy r"
    and "find (\<lambda>opt. semver_intersects X (range_nv opt) (str r) = Inr True) allOptions = Some sel"
  shows "getSupportedNodeVersion X L T r a =
    (if isDiscontinued T sel
     then ([], Inl (BuildError \<lparr>code = ''NOW_BUILD_UTILS_NODE_VERSION_DISCONTINUED'',
                                message = discontinued_message L r a\<rparr>))
     else report_and_return X L sel r a)"
  using assms(1) scan_found[OF assms(2), of getOldestNodeVersion]
  by (simp add: getSupportedNodeVersion_def check_discontinued_def)

lemma gsnv_shape:
  "getSupportedNodeVersion X L T r a = ([], Inl TypeError) \<or>
   getSupportedNodeVersion X L T r a =
      ([], Inl (BuildError \<lparr>code = ''NOW_BUILD_UTILS_NODE_VERSION_INVALID'',
                            message = invalid_message L r a\<rparr>)) \<or>
   (\<exists>sel. sel \<in> set allOptions \<and> isDiscontinued T sel \<and>
      getSupportedNodeVersion X L T r a =
        ([], Inl (BuildError \<lparr>code = ''NOW_BUILD_UTILS_NODE_VERSION_DISCONTINUED'',
                              message = discontinued_message L r a\<rparr>))) \<or>
   (\<exists>sel. sel \<in> set allOptions \<and> \<not> isDiscontinued T sel \<and>
      getSupportedNodeVersion X L T r a = report_and_return X L sel r a)"
proof (cases "truthy r")
  case False
  from gsnv_absent[OF False, of X L T a] getOldest_in show ?thesis
    by (cases "isDiscontinued T getOldestNodeVersion") auto
next
  case True
  show ?thesis
  proof (cases "validRange X (str r)")
    case False
    from gsnv_raises[OF True False] show ?thesis by simp
  next
    case valid: True
    show ?thesis
    proof (cases "find (\<lambda>opt. semver_intersects X (range_nv opt) (str r) = Inr True) allOptions")
      case None
      from gsnv_no_match[OF True valid None] show ?thesis by simp
    next
      case (Some sel)
      then have "sel \<in> set allOptions" by (auto simp: find_Some_iff)
      with gsnv_match[OF True Some, of L T a] show ?thesis
        by (cases "isDiscontinued T sel") auto
    qed
  qed
qed

text \<open>An error of the invalid kind comes from a scan that ran to its end.\<close>

lemma invalid_error_source:
  assumes "snd (getSupportedNodeVersion X L T r a) = Inl (BuildError e)"
    and "code e = ''NOW_BUILD_UTILS_NODE_VERSION_INVALID''"
  shows "truthy r \<and> validRange X (str r) \<and>
         find (\<lambda>opt. semver_intersects X (range_nv opt) (str r) = Inr True) allOptions = None \<and>
         message e = invalid_message L r a"
proof (cases "truthy r")
  case False
  from gsnv_absent[OF False, of X L T a] assms(1)
  have "code e = ''NOW_BUILD_UTILS_NODE_VERSION_DISCONTINUED''"
    by (auto simp: report_and_return_def split: if_splits)
  with assms(2) show ?thesis by simp
next
  case True
  show ?thesis
  proof (cases "validRange X (str r)")
    case False
    from gsnv_raises[OF True False, of L T a] assms(1) show ?thesis by simp
  next
    case valid: True
    show ?thesis
    proof (cases "find (\<lambda>opt. semver_intersects X (range_nv opt) (str r) = Inr True) allOptions")
      case None
      from gsnv_no_match[OF True valid None, of L T a] assms(1)
      have "message e = invalid_message L r a" by auto
      with True valid None show ?thesis by simp
    next
      case (Some sel)
      from gsnv_match[OF True Some, of L T a] assms(1)
      have "code e = ''NOW_BUILD_UTILS_NODE_VERSION_DISCONTINUED''"
        by (auto simp: report_and_return_def split: if_splits)
      with assms(2) show ?thesis by simp
    qed
  qed
qed

lemma notice_includes_date: "\<exists>pre post. notice L sel d r a = pre @ d @ post"
proof -
  have "notice L sel d r a =
     (''NOTICE'' @ ''\<newline>'' @
      ''\<newline>Node.js version '' @ range_nv sel @ '' has reached end-of-life.'' @
      ''\<newline>As a result, deployments created on or after '') @ d @
     ('' will fail to build.'' @ ''\<newline>'' @
      (if isAuto_or_no_engineRange a r then pleaseAdd else pleaseUse L) @
      ''\<newline>'' @ upstreamProvider)"
    unfolding notice_def by (simp only: append_assoc)
  then show ?thesis by blast
qed

text \<open>
  On the strings that are ranges the invalid-range error is raised exactly when no known
  option's range intersects the requested one.
\<close>

lemma invalid_iff_no_match_on_ranges:
  assumes "truthy engineRange" and "validRange X (str engineRange)"
  shows "(error_code (snd (getSupportedNodeVersion X L T engineRange isAuto)) =
            Some ''NOW_BUILD_UTILS_NODE_VERSION_INVALID'')
         = (\<forall>opt\<in>set allOptions. \<not> intersects X (range_nv opt) (str engineRange))"
proof (cases "find (\<lambda>opt. semver_intersects X (range_nv opt) (str engineRange) = Inr True) allOptions")
  case None
  with assms(2) have "\<forall>opt\<in>set allOptions. \<not> intersects X (range_nv opt) (str engineRange)"
    by (auto simp: find_None_iff semver_intersects_def)
  with gsnv_no_match[OF assms None, of L T isAuto] show ?thesis
    by (simp add: error_code_def)
next
  case (Some sel)
  then have "\<exists>opt\<in>set allOptions. intersects X (range_nv opt) (str engineRange)"
    by (auto simp: find_Some_iff semver_intersects_def split: if_splits)
  with gsnv_match[OF assms(1) Some, of L T isAuto] show ?thesis
    by (auto simp: error_code_def report_and_return_def)
qed

text \<open>
  The list of ranges in the message \<open>pleaseUse\<close> is the one computed when the module was
  loaded.
\<close>

lemma invalid_message_from_load_time:
  assumes "snd (getSupportedNodeVersion X L T engineRange isAuto) = Inl (BuildError e)"
    and "code e = ''NOW_BUILD_UTILS_NODE_VERSION_INVALID''"
  shows "message e =
      (if truthy_bool isAuto
       then ''This project is using an invalid version of Node.js and must be changed.''
       else ''Found `engines` in `package.json` with an invalid Node.js version range: '' @
            str engineRange) @
      ''\<newline>Please use one of the following `engines` in your `package.json`: '' @
      JSON_stringify (map range_nv (filter (\<lambda>opt. \<not> isDiscontinued L opt) allOptions))"
proof -
  from invalid_error_source[OF assms]
  have t: "truthy engineRange" and m: "message e = invalid_message L engineRange isAuto"
    by simp_all
  from t have "isAuto_or_no_engineRange isAuto engineRange = truthy_bool isAuto"
    by (simp add: isAuto_or_no_engineRange_def)
  with m show ?thesis
    by (simp add: invalid_message_def pleaseUse_def supportedOptions_def)
qed

subsection \<open>The stand-ins on the inputs used below\<close>

lemma truthy_Some: "truthy (Some (c # cs))"
  by (simp add: truthy_def)

lemma stub_find_ge10:
  "find (\<lambda>opt. semver_intersects stub (range_nv opt) (str (Some ''>=10'')) = Inr True) allOptions =
     Some (allOptions ! 0)"
  by (simp add: allOptions_def stub_def stub_intersects_def stub_validRange_def str_def
      semver_intersects_def)

lemma stub_find_8:
  "find (\<lambda>opt. semver_intersects stub (range_nv opt) (str (Some ''8.10.x'')) = Inr True) allOptions =
     Some (allOptions ! 2)"
  by (simp add: allOptions_def stub_def stub_intersects_def stub_validRange_def str_def
      semver_intersects_def)

lemma stub_find_6:
  "validRange stub (str (Some ''6.x''))"
  "find (\<lambda>opt. semver_intersects stub (range_nv opt) (str (Some ''6.x'')) = Inr True) allOptions = None"
  by (simp_all add: allOptions_def stub_def stub_intersects_def stub_validRange_def str_def
      semver_intersects_def)

lemma stub_foo: "\<not> validRange stub (str (Some ''foo''))"
  by (simp add: stub_def stub_validRange_def str_def)

lemma node8_discontinued:
  "discontinueDate (allOptions ! 2) = Some 1578268800000"
  "isDiscontinued 1578268800000 (allOptions ! 2)"
  "\<not> isDiscontinued 1578268799999 (allOptions ! 2)"
  by (simp_all add: isDiscontinued_def allOptions_def)

lemma last_allOptions:
  "last allOptions = \<lparr>major = 8, range_nv = ''8.10.x'', runtime = ''nodejs8.10'',
                       discontinueDate = Some 1578268800000\<rparr>"
  by (simp add: allOptions_def)

section \<open>The claims\<close>

text \<open>
  In what follows a requested range is \<^emph>\<open>present\<close> when the function's own test
  \<open>if (engineRange)\<close> succeeds, that is, when it is a non-empty string (\<open>truthy\<close>); the
  empty string goes the way of the absent range. An option's range \<^emph>\<open>intersects\<close> the
  requested one when the library call answers true. \<open>L\<close> is the time at which the module
  was loaded and \<open>T\<close> the time of the call.
\<close>

subsection \<open>C1: the newest matching option is the selection\<close>

text \<open>
  C1, as amended. For every present requested range that intersects the range of at least
  one known option, the selection is the first option of the newest-to-oldest list whose
  range intersects the requested one (the newest match, not the last one). The call returns
  that option when it is not discontinued at the time of the call, and fails with the
  discontinued error when it is.
\<close>

theorem newest_match_selected:
  assumes "truthy engineRange"
    and "\<exists>opt\<in>set allOptions. semver_intersects X (range_nv opt) (str engineRange) = Inr True"
  shows "\<exists>sel. find (\<lambda>opt. semver_intersects X (range_nv opt) (str engineRange) = Inr True) allOptions = Some sel \<and>
           snd (getSupportedNodeVersion X L T engineRange isAuto) =
             (if isDiscontinued T sel
              then Inl (BuildError \<lparr>code = ''NOW_BUILD_UTILS_NODE_VERSION_DISCONTINUED'',
                        message = discontinued_message L engineRange isAuto\<rparr>)
              else Inr sel)"
proof -
  from assms(2)
  have "find (\<lambda>opt. semver_intersects X (range_nv opt) (str engineRange) = Inr True) allOptions \<noteq> None"
    by (auto simp: find_None_iff)
  then obtain sel where
    f: "find (\<lambda>opt. semver_intersects X (range_nv opt) (str engineRange) = Inr True) allOptions = Some sel"
    by blast
  from gsnv_match[OF assms(1) f, of L T isAuto]
  have "snd (getSupportedNodeVersion X L T engineRange isAuto) =
          (if isDiscontinued T sel
           then Inl (BuildError \<lparr>code = ''NOW_BUILD_UTILS_NODE_VERSION_DISCONTINUED'',
                     message = discontinued_message L engineRange isAuto\<rparr>)
           else Inr sel)"
    by (simp add: report_and_return_def)
  with f show ?thesis by blast
qed

text \<open>
  The range \<open>>=10\<close> meets both \<open>12.x\<close> and \<open>10.x\<close>; the call returns the option for
  Node.js 12.
\<close>

theorem newest_match_selected_witness:
  "truthy (Some ''>=10'') \<and>
   semver_intersects stub ''12.x'' ''>=10'' = Inr True \<and>
   semver_intersects stub ''10.x'' ''>=10'' = Inr True \<and>
   snd (getSupportedNodeVersion stub 1578268800000 1578268800000 (Some ''>=10'') None) =
     Inr \<lparr>major = 12, range_nv = ''12.x'', runtime = ''nodejs12.x'', discontinueDate = None\<rparr>"
proof -
  have t: "truthy (Some ''>=10'')" by (rule truthy_Some)
  have i: "semver_intersects stub ''12.x'' ''>=10'' = Inr True"
          "semver_intersects stub ''10.x'' ''>=10'' = Inr True"
    by (simp_all add: semver_intersects_def stub_def stub_intersects_def stub_validRange_def)
  have m: "\<exists>opt\<in>set allOptions.
             semver_intersects stub (range_nv opt) (str (Some ''>=10'')) = Inr True"
    by (simp add: allOptions_def semver_intersects_def stub_def stub_intersects_def
        stub_validRange_def str_def)
  from newest_match_selected[OF t m, of 1578268800000 1578268800000 None] stub_find_ge10
  have "snd (getSupportedNodeVersion stub 1578268800000 1578268800000 (Some ''>=10'') None) =
          Inr (allOptions ! 0)"
    by (auto simp: isDiscontinued_def allOptions_def)
  with t i show ?thesis by (simp add: allOptions_def)
qed

text \<open>
  The claim as first stated has the call return the first matching option. On
  2020-01-06 at midnight UTC the range \<open>8.10.x\<close> matches the option for Node.js 8 and no
  newer one, and the call fails with the discontinued error instead of returning it.
\<close>

theorem newest_match_returned_counterexample:
  "truthy (Some ''8.10.x'') \<and>
   find (\<lambda>opt. semver_intersects stub (range_nv opt) ''8.10.x'' = Inr True) allOptions = Some (allOptions ! 2) \<and>
   snd (getSupportedNodeVersion stub 1578268800000 1578268800000 (Some ''8.10.x'') (Some False)) =
     Inl (BuildError \<lparr>code = ''NOW_BUILD_UTILS_NODE_VERSION_DISCONTINUED'',
          message = discontinued_message 1578268800000 (Some ''8.10.x'') (Some False)\<rparr>)"
proof -
  have t: "truthy (Some ''8.10.x'')" by (rule truthy_Some)
  from gsnv_match[OF t stub_find_8, of 1578268800000 1578268800000 "Some False"]
    node8_discontinued(2) t stub_find_8
  show ?thesis by (simp add: str_def)
qed

subsection \<open>C2: the invalid-range error, exactly when no option matches\<close>

text \<open>
  C2. The claim: for every present requested range whose intersection with every known
  option's range is empty, the call fails with the invalid-range error, and it does not
  when some option's range intersects the requested one. The function does not do this for
  a requested string that is not a range at all, such as \<open>foo\<close>: no option's range
  intersects it, and the error whose message speaks of an invalid version range is written
  for it, but the library call of the scan throws first and the call is rejected with the
  library's \<open>TypeError\<close>, which carries neither error code. (On the strings that are
  ranges the claim holds: \<open>invalid_iff_no_match_on_ranges\<close>.)
\<close>

theorem non_range_rejected_with_TypeError:
  "truthy (Some ''foo'') \<and>
   find (\<lambda>opt. semver_intersects stub (range_nv opt) ''foo'' = Inr True) allOptions = None \<and>
   getSupportedNodeVersion stub 1578268800000 1578268800000 (Some ''foo'') (Some False) =
     ([], Inl TypeError) \<and>
   error_code (snd (getSupportedNodeVersion stub 1578268800000 1578268800000
                      (Some ''foo'') (Some False))) = None"
proof -
  have t: "truthy (Some ''foo'')" by (rule truthy_Some)
  have f: "find (\<lambda>opt. semver_intersects stub (range_nv opt) ''foo'' = Inr True) allOptions = None"
    by (simp add: allOptions_def stub_def stub_validRange_def semver_intersects_def)
  from gsnv_raises[OF t stub_foo, of 1578268800000 1578268800000 "Some False"] t f
  show ?thesis by (simp add: error_code_def)
qed

subsection \<open>C3: a discontinued selection fails\<close>

text \<open>
  C3. Whenever the selected option, be it the oldest option taken by default or the option
  matched by the scan, has a discontinuation date that is not in the future at the time of
  the call, the call fails with the discontinued error, returns no option and writes
  nothing, whatever the requested range.
\<close>

theorem discontinued_selection_fails:
  assumes "spec_selection X engineRange = Some sel" and "isDiscontinued T sel"
  shows "getSupportedNodeVersion X L T engineRange isAuto =
           ([], Inl (BuildError \<lparr>code = ''NOW_BUILD_UTILS_NODE_VERSION_DISCONTINUED'',
                     message = discontinued_message L engineRange isAuto\<rparr>))"
proof (cases "truthy engineRange")
  case True
  with assms(1)
  have "find (\<lambda>opt. semver_intersects X (range_nv opt) (str engineRange) = Inr True) allOptions = Some sel"
    by (simp add: spec_selection_def)
  from gsnv_match[OF True this] assms(2) show ?thesis by simp
next
  case False
  with assms(1) have "sel = getOldestNodeVersion"
    by (simp add: spec_selection_def getOldest_last)
  with gsnv_absent[OF False] assms(2) show ?thesis by simp
qed

text \<open>With no range, on 2020-01-06: the default is Node.js 8, discontinued that day.\<close>

theorem discontinued_selection_fails_witness:
  "spec_selection stub None = Some (allOptions ! 2) \<and>
   isDiscontinued 1578268800000 (allOptions ! 2) \<and>
   getSupportedNodeVersion stub 0 1578268800000 None (Some True) =
     ([], Inl (BuildError \<lparr>code = ''NOW_BUILD_UTILS_NODE_VERSION_DISCONTINUED'',
               message = discontinued_message 0 None (Some True)\<rparr>))"
proof -
  have s: "spec_selection stub None = Some (allOptions ! 2)"
    by (simp add: spec_selection_def truthy_def allOptions_def)
  from discontinued_selection_fails[OF s node8_discontinued(2)] s node8_discontinued(2)
  show ?thesis by simp
qed

subsection \<open>C4: the fallback without a range\<close>

text \<open>
  C4. With the requested range absent, the call returns the oldest known option, the last
  element of the list, when that option is not discontinued at the time of the call, and
  fails with the discontinued error when it is; the invalid-range error is never raised.
\<close>

theorem absent_range_fallback:
  "getOldestNodeVersion = last allOptions \<and>
   snd (getSupportedNodeVersion X L T None isAuto) =
     (if isDiscontinued T (last allOptions)
      then Inl (BuildError \<lparr>code = ''NOW_BUILD_UTILS_NODE_VERSION_DISCONTINUED'',
                message = discontinued_message L None isAuto\<rparr>)
      else Inr (last allOptions)) \<and>
   error_code (snd (getSupportedNodeVersion X L T None isAuto)) \<noteq>
     Some ''NOW_BUILD_UTILS_NODE_VERSION_INVALID''"
proof -
  have "\<not> truthy None" by (simp add: truthy_def)
  from gsnv_absent[OF this, of X L T isAuto] show ?thesis
    by (simp add: getOldest_last report_and_return_def error_code_def)
qed

text \<open>One millisecond before 2020-01-06 the default is returned; at midnight it is not.\<close>

theorem absent_range_fallback_witness:
  "snd (getSupportedNodeVersion stub 0 1578268799999 None None) =
     Inr \<lparr>major = 8, range_nv = ''8.10.x'', runtime = ''nodejs8.10'',
          discontinueDate = Some 1578268800000\<rparr> \<and>
   snd (getSupportedNodeVersion stub 0 1578268800000 None None) =
     Inl (BuildError \<lparr>code = ''NOW_BUILD_UTILS_NODE_VERSION_DISCONTINUED'',
          message = discontinued_message 0 None None\<rparr>)"
proof -
  have d: "\<not> isDiscontinued 1578268799999 (last allOptions)"
          "isDiscontinued 1578268800000 (last allOptions)"
    by (simp_all add: last_allOptions isDiscontinued_def)
  from absent_range_fallback[of stub 0 1578268799999 None]
       absent_range_fallback[of stub 0 1578268800000 None] d
  show ?thesis by (simp add: last_allOptions)
qed

subsection \<open>C5: the ranges listed by the invalid-range message\<close>

text \<open>
  C5. The claim: in both of its wordings the message of the invalid-range error lists
  exactly the ranges of the options that are not discontinued at the time of the call. The
  function does not do this: the list is filtered by \<open>isDiscontinued\<close> once, when the
  module is loaded, while the selection is checked against the clock in every call. A module
  loaded one millisecond before 2020-01-06 and called at midnight with the range \<open>6.x\<close>
  lists \<open>8.10.x\<close> among the ranges to use, although the options not discontinued at that
  time are \<open>12.x\<close> and \<open>10.x\<close>, and although the same module at the same time refuses
  the range \<open>8.10.x\<close> as discontinued.
\<close>

theorem invalid_message_lists_discontinued_range:
  \<open>snd (getSupportedNodeVersion stub 1578268799999 1578268800000 (Some ''6.x'') (Some False)) =
     Inl (BuildError
       \<lparr>code = ''NOW_BUILD_UTILS_NODE_VERSION_INVALID'',
        message =
          ''Found `engines` in `package.json` with an invalid Node.js version range: 6.x'' @
          ''\<newline>Please use one of the following `engines` in your `package.json`: '' @
          ''["12.x","10.x","8.10.x"]''\<rparr>) \<and>
   map range_nv (filter (\<lambda>opt. \<not> isDiscontinued 1578268800000 opt) allOptions) =
     [''12.x'', ''10.x''] \<and>
   error_code (snd (getSupportedNodeVersion stub 1578268799999 1578268800000
                      (Some ''8.10.x'') (Some False))) =
     Some ''NOW_BUILD_UTILS_NODE_VERSION_DISCONTINUED''\<close>
proof -
  have t: "truthy (Some ''6.x'')" "truthy (Some ''8.10.x'')" by (rule truthy_Some)+
  have m: \<open>invalid_message 1578268799999 (Some ''6.x'') (Some False) =
            ''Found `engines` in `package.json` with an invalid Node.js version range: 6.x'' @
            ''\<newline>Please use one of the following `engines` in your `package.json`: '' @
            ''["12.x","10.x","8.10.x"]''\<close>
    by (simp add: invalid_message_def isAuto_or_no_engineRange_def truthy_bool_def truthy_def
        str_def pleaseUse_def supportedOptions_def allOptions_def isDiscontinued_def
        JSON_stringify_def quote_def)
  have l: "map range_nv (filter (\<lambda>opt. \<not> isDiscontinued 1578268800000 opt) allOptions) =
     [''12.x'', ''10.x'']"
    by (simp add: allOptions_def isDiscontinued_def)
  have d: "error_code (snd (getSupportedNodeVersion stub 1578268799999 1578268800000
                      (Some ''8.10.x'') (Some False))) =
     Some ''NOW_BUILD_UTILS_NODE_VERSION_DISCONTINUED''"
    using gsnv_match[OF t(2) stub_find_8, of 1578268799999 1578268800000 "Some False"]
      node8_discontinued(2)
    by (simp add: error_code_def)
  from gsnv_no_match[OF t(1) stub_find_6, of 1578268799999 1578268800000 "Some False"] m l d
  show ?thesis by simp
qed

subsection \<open>C6: the notice, exactly before a coming discontinuation\<close>

text \<open>
  C6. A call that fails hands nothing to \<open>console.warn\<close>. A call that returns an option
  without a discontinuation date hands it nothing either. A call that returns an option
  with a discontinuation date returns it only while that date is strictly in the future,
  and hands \<open>console.warn\<close> exactly one text, the framed notice, which contains the date
  (the ISO text of the date up to its \<open>T\<close>).
\<close>

theorem warning_only_before_discontinuation:
  "case snd (getSupportedNodeVersion X L T r a) of
     Inl e \<Rightarrow> warnings (fst (getSupportedNodeVersion X L T r a)) = []
   | Inr sel \<Rightarrow>
       (case discontinueDate sel of
          None \<Rightarrow> warnings (fst (getSupportedNodeVersion X L T r a)) = []
        | Some dd \<Rightarrow>
            T < dd \<and>
            warnings (fst (getSupportedNodeVersion X L T r a)) =
              [boxen X (notice L sel (split_T_0 (toISOString X dd)) r a)] \<and>
            (\<exists>pre post. notice L sel (split_T_0 (toISOString X dd)) r a =
                          pre @ split_T_0 (toISOString X dd) @ post))"
  using gsnv_shape[of X L T r a] notice_includes_date
  by (auto simp: report_and_return_def isDiscontinued_def split: option.splits)

text \<open>
  One millisecond before 2020-01-06 the range \<open>8.10.x\<close> is still served, with the notice
  naming that day.
\<close>

theorem warning_only_before_discontinuation_witness:
  "snd (getSupportedNodeVersion stub 0 1578268799999 (Some ''8.10.x'') (Some False)) =
     Inr (allOptions ! 2) \<and>
   discontinueDate (allOptions ! 2) = Some 1578268800000 \<and>
   warnings (fst (getSupportedNodeVersion stub 0 1578268799999 (Some ''8.10.x'') (Some False))) =
     [notice 0 (allOptions ! 2) ''2020-01-06'' (Some ''8.10.x'') (Some False)]"
proof -
  have t: "truthy (Some ''8.10.x'')" by (rule truthy_Some)
  have s: "snd (getSupportedNodeVersion stub 0 1578268799999 (Some ''8.10.x'') (Some False)) =
     Inr (allOptions ! 2)"
    using gsnv_match[OF t stub_find_8, of 0 1578268799999 "Some False"] node8_discontinued(3)
    by (simp add: report_and_return_def)
  have i: "split_T_0 (toISOString stub 1578268800000) = ''2020-01-06''"
    by (simp add: stub_def split_T_0_def)
  from warning_only_before_discontinuation[of stub 0 1578268799999 "Some ''8.10.x''" "Some False"]
    s node8_discontinued(1) i
  show ?thesis by (simp add: stub_def)
qed

subsection \<open>C7: the auto flag changes the wording only\<close>

text \<open>
  C7. For every requested range, present or absent, and every fixed time, two calls that
  differ in \<open>isAuto\<close> alone have the same outcome up to the wording: the same option on
  success, the same error code on failure (and the library's \<open>TypeError\<close> in the one
  when in the other).
\<close>

theorem isAuto_keeps_outcome:
  "map_sum rejection_code id (snd (getSupportedNodeVersion X L T r a)) =
   map_sum rejection_code id (snd (getSupportedNodeVersion X L T r a'))"
proof (cases "truthy r")
  case False
  from gsnv_absent[OF False, of X L T a] gsnv_absent[OF False, of X L T a'] show ?thesis
    by (simp add: report_and_return_def)
next
  case True
  show ?thesis
  proof (cases "validRange X (str r)")
    case False
    from gsnv_raises[OF True False, of L T a] gsnv_raises[OF True False, of L T a']
    show ?thesis by simp
  next
    case valid: True
    show ?thesis
    proof (cases "find (\<lambda>opt. semver_intersects X (range_nv opt) (str r) = Inr True) allOptions")
      case None
      from gsnv_no_match[OF True valid None, of L T a] gsnv_no_match[OF True valid None, of L T a']
      show ?thesis by simp
    next
      case (Some sel)
      from gsnv_match[OF True Some, of L T a] gsnv_match[OF True Some, of L T a']
      show ?thesis by (simp add: report_and_return_def)
    qed
  qed
qed

text \<open>The range \<open>8.10.x\<close> on 2020-01-06: both calls fail alike, with different messages.\<close>

theorem isAuto_keeps_outcome_witness:
  "map_sum rejection_code id (snd (getSupportedNodeVersion stub 0 1578268800000
                           (Some ''8.10.x'') (Some True))) =
     Inl (Some ''NOW_BUILD_UTILS_NODE_VERSION_DISCONTINUED'') \<and>
   map_sum rejection_code id (snd (getSupportedNodeVersion stub 0 1578268800000
                           (Some ''8.10.x'') (Some False))) =
     Inl (Some ''NOW_BUILD_UTILS_NODE_VERSION_DISCONTINUED'') \<and>
   discontinued_message 0 (Some ''8.10.x'') (Some True) \<noteq>
     discontinued_message 0 (Some ''8.10.x'') (Some False)"
proof -
  have t: "truthy (Some ''8.10.x'')" by (rule truthy_Some)
  have 1: "map_sum rejection_code id (snd (getSupportedNodeVersion stub 0 1578268800000
                                   (Some ''8.10.x'') (Some True))) =
     Inl (Some ''NOW_BUILD_UTILS_NODE_VERSION_DISCONTINUED'')"
    using gsnv_match[OF t stub_find_8, of 0 1578268800000 "Some True"] node8_discontinued(2)
    by simp
  have 2: "discontinued_message 0 (Some ''8.10.x'') (Some True) \<noteq>
     discontinued_message 0 (Some ''8.10.x'') (Some False)"
    by (simp add: discontinued_message_def isAuto_or_no_engineRange_def truthy_bool_def truthy_def)
  from isAuto_keeps_outcome[of stub 0 1578268800000 "Some ''8.10.x''" "Some True" "Some False"] 1 2
  show ?thesis by simp
qed

subsection \<open>C8: the list is ordered from newest to oldest\<close>

text \<open>
  C8. The list of known options is a constant of the module: no function of the module
  takes it as an argument or returns a changed copy. It is ordered strictly from the newest
  to the oldest major version: in every adjacent pair the earlier element has the greater
  major version.
\<close>

theorem allOptions_newest_first:
  "\<forall>i. Suc i < length allOptions \<longrightarrow> major (allOptions ! Suc i) < major (allOptions ! i)"
  by (auto simp: allOptions_def less_Suc_eq numeral_3_eq_3)

theorem allOptions_newest_first_witness:
  "Suc 0 < length allOptions \<and> major (allOptions ! Suc 0) < major (allOptions ! 0)"
proof -
  have "Suc 0 < length allOptions" by (simp add: allOptions_def)
  with allOptions_newest_first show ?thesis by blast
qed

subsection \<open>C9: the empty range goes the way of the absent one\<close>

text \<open>
  C9. Whatever \<open>isAuto\<close> is, a call with the empty string as the requested range skips the
  scan: it does exactly what the call without a range and with \<open>isAuto\<close> set does. It never
  fails with the invalid-range error; it returns the oldest option, or fails with the
  discontinued error when that option is discontinued; and its error, its debug line and
  its notice are worded as for an automatically selected range.
\<close>

theorem empty_range_as_absent:
  "getSupportedNodeVersion X L T (Some []) isAuto =
     getSupportedNodeVersion X L T None (Some True) \<and>
   error_code (snd (getSupportedNodeVersion X L T (Some []) isAuto)) \<noteq>
     Some ''NOW_BUILD_UTILS_NODE_VERSION_INVALID'' \<and>
   getSupportedNodeVersion X L T (Some []) isAuto =
     (if isDiscontinued T (last allOptions)
      then ([], Inl (BuildError \<lparr>code = ''NOW_BUILD_UTILS_NODE_VERSION_DISCONTINUED'',
                    message =
                      ''This project is using a discontinued version of Node.js and must be upgraded.'' @
                      ''\<newline>'' @ pleaseAdd @ ''\<newline>'' @ upstreamProvider\<rparr>))
      else (Debug (''Using default Node.js range: '' @ range_nv (last allOptions)) #
            (case discontinueDate (last allOptions) of
               None \<Rightarrow> []
             | Some dd \<Rightarrow>
                 [Warn (boxen X
                    (''NOTICE'' @ ''\<newline>'' @
                     ''\<newline>Node.js version '' @ range_nv (last allOptions) @
                     '' has reached end-of-life.'' @
                     ''\<newline>As a result, deployments created on or after '' @
                     split_T_0 (toISOString X dd) @ '' will fail to build.'' @
                     ''\<newline>'' @ pleaseAdd @ ''\<newline>'' @ upstreamProvider))]),
            Inr (last allOptions)))"
proof -
  have e: "\<not> truthy (Some [])" and n: "\<not> truthy None" by (simp_all add: truthy_def)
  have w: "isAuto_or_no_engineRange isAuto (Some [])" "isAuto_or_no_engineRange (Some True) None"
    by (simp_all add: isAuto_or_no_engineRange_def truthy_def)
  from gsnv_absent[OF e, of X L T isAuto] gsnv_absent[OF n, of X L T "Some True"] w
  show ?thesis
    by (simp add: report_and_return_def discontinued_message_def debug_message_def notice_def
        error_code_def getOldest_last split: option.splits)
qed

text \<open>The empty range given by the user, on 2020-01-06: refused as discontinued.\<close>

theorem empty_range_as_absent_witness:
  "getSupportedNodeVersion stub 0 1578268800000 (Some []) (Some False) =
     ([], Inl (BuildError \<lparr>code = ''NOW_BUILD_UTILS_NODE_VERSION_DISCONTINUED'',
               message =
                 ''This project is using a discontinued version of Node.js and must be upgraded.'' @
                 ''\<newline>'' @ pleaseAdd @ ''\<newline>'' @ upstreamProvider\<rparr>))"
proof -
  have "isDiscontinued 1578268800000 (last allOptions)"
    by (simp add: last_allOptions isDiscontinued_def)
  with empty_range_as_absent[of stub 0 1578268800000 "Some False", THEN conjunct2, THEN conjunct2]
  show ?thesis by (simp only: if_True)
qed

subsection \<open>C10: every returned option is a known option\<close>

text \<open>
  C10. Every option a successful call returns is an element of the list of known options,
  with its four fields as the list has them; the call builds no option of its own.
\<close>

theorem result_in_allOptions:
  "snd (getSupportedNodeVersion X L T r a) = Inr sel \<Longrightarrow> sel \<in> set allOptions"
  using gsnv_shape[of X L T r a] by (auto simp: report_and_return_def)

theorem result_in_allOptions_witness:
  "snd (getSupportedNodeVersion stub 0 0 (Some ''>=10'') None) = Inr (allOptions ! 0) \<and>
   allOptions ! 0 \<in> set allOptions"
proof -
  have n: "\<not> isDiscontinued 0 (allOptions ! 0)"
    by (simp add: isDiscontinued_def allOptions_def)
  have s: "snd (getSupportedNodeVersion stub 0 0 (Some ''>=10'') None) = Inr (allOptions ! 0)"
    using gsnv_match[OF truthy_Some stub_find_ge10, of 0 0 None] n
    by (simp add: report_and_return_def)
  from result_in_allOptions[OF s] s show ?thesis by simp
qed

end
